theory Spec2Isabelle
  imports Main
begin

section \<open>JavaScript values\<close>

text \<open>
  The settings application (\<^verbatim>\<open>src/index.js\<close> and its later revision
  \<^verbatim>\<open>src/unnamed/part_000\<close>) works on JSON-like data: the settings and defaults
  trees, the values the controls emit, the table of field strategies.

  \<^item> A number is modelled by an integer (integer-valued numbers only).
  \<^item> A string is a list of characters, one per code unit.
  \<^item> A plain object is an association list of its own enumerable data
    properties in insertion order; the first binding of a key is the property.
    The objects considered have no own property named \<^verbatim>\<open>__proto__\<close>, and an
    assignment creates none: it goes to the accessor that every plain object
    inherits, see \<open>buildObject\<close>.
  \<^item> \<open>JOpaque n\<close> is a function or a built-in object, identified by a name; the
    model does not look inside it.
\<close>

datatype jsval =
    JUndefined
  | JNull
  | JBool bool
  | JNum int
  | JStr string
  | JArr "jsval list"
  | JObj "(string \<times> jsval) list"
  | JOpaque string

text \<open>
  Exceptions are values. \<open>TypeError\<close> is what reading a property of
  \<^verbatim>\<open>undefined\<close> or \<^verbatim>\<open>null\<close> raises; \<open>Thrown v\<close> is any other
  thrown value.
\<close>

datatype exn = TypeError | Thrown jsval

datatype 'a completion = Normal 'a | Throw exn

text \<open>
  A property read \<^verbatim>\<open>r[k]\<close> first looks at the own properties of \<open>r\<close>. What
  it yields when \<open>r\<close> has no own property \<open>k\<close> is decided by the runtime, through
  the prototype chain of \<open>r\<close>: \<^verbatim>\<open>({})['toString']\<close> is a function. The runtime
  is a parameter of the model: \<open>h r k\<close> is the outcome of reading \<open>k\<close> from \<open>r\<close>
  when \<open>k\<close> is not an own property, \<open>Normal JUndefined\<close> when the prototype chain
  has no such property, \<open>Throw\<close> when an inherited accessor throws.
\<close>

type_synonym host = "jsval \<Rightarrow> string \<Rightarrow> jsval completion"

definition digit :: "nat \<Rightarrow> char" where
  "digit d = ''0123456789'' ! d"

text \<open>The canonical decimal numeral of an array index.\<close>

fun decimal :: "nat \<Rightarrow> string" where
  "decimal n = (if n < 10 then [digit n] else decimal (n div 10) @ [digit (n mod 10)])"

declare decimal.simps [simp del]

text \<open>The index properties of an array (or of the characters of a string).\<close>

definition indexed :: "jsval list \<Rightarrow> (string \<times> jsval) list" where
  "indexed xs = zip (map decimal [0..<length xs]) xs"

text \<open>
  Own properties: those of an object; \<^verbatim>\<open>length\<close> and the indices of a string
  or an array. Booleans, numbers, \<^verbatim>\<open>undefined\<close>, \<^verbatim>\<open>null\<close> have none.
\<close>

fun ownProp :: "jsval \<Rightarrow> string \<Rightarrow> jsval option" where
  "ownProp (JObj kvs) k = map_of kvs k"
| "ownProp (JStr s) k =
     (if k = ''length'' then Some (JNum (int (length s)))
      else map_of (indexed (map (\<lambda>c. JStr [c]) s)) k)"
| "ownProp (JArr xs) k =
     (if k = ''length'' then Some (JNum (int (length xs)))
      else map_of (indexed xs) k)"
| "ownProp _ k = None"

text \<open>The property read \<^verbatim>\<open>r[k]\<close>.\<close>

fun getProp :: "host \<Rightarrow> jsval \<Rightarrow> string \<Rightarrow> jsval completion" where
  "getProp h JUndefined k = Throw TypeError"
| "getProp h JNull k = Throw TypeError"
| "getProp h r k = (case ownProp r k of Some v \<Rightarrow> Normal v | None \<Rightarrow> h r k)"

text \<open>
  The assignment \<^verbatim>\<open>o[k] = v\<close> on the own properties of a plain object, for a
  key other than \<^verbatim>\<open>__proto__\<close>: an existing property keeps its place, a new
  one goes last.
\<close>

fun setOwn :: "string \<Rightarrow> jsval \<Rightarrow> (string \<times> jsval) list \<Rightarrow> (string \<times> jsval) list" where
  "setOwn k v [] = [(k, v)]"
| "setOwn k v (p # ps) = (if fst p = k then (k, v) # ps else p # setOwn k v ps)"

text \<open>
  \<^verbatim>\<open>key.split(/\./g)\<close>: the segments between the dots. Empty segments are
  kept, and the empty string has one segment, the empty one.
\<close>

fun splitDots :: "string \<Rightarrow> string list" where
  "splitDots [] = ['''']"
| "splitDots (c # cs) =
     (if c = CHR ''.'' then [] # splitDots cs
      else (case splitDots cs of w # ws \<Rightarrow> (c # w) # ws | [] \<Rightarrow> [c] # []))"

section \<open>Reading a path\<close>

text \<open>
  \<^verbatim>\<open>Object.assign({}, tree)\<close>: a fresh plain object with the own enumerable
  properties of \<open>tree\<close>. The \<^verbatim>\<open>length\<close> of a string or an array is not
  enumerable; \<^verbatim>\<open>undefined\<close>, \<^verbatim>\<open>null\<close>, booleans and numbers give
  nothing.
\<close>

fun objectAssign :: "jsval \<Rightarrow> jsval" where
  "objectAssign (JObj kvs) = JObj kvs"
| "objectAssign (JStr s) = JObj (indexed (map (\<lambda>c. JStr [c]) s))"
| "objectAssign (JArr xs) = JObj (indexed xs)"
| "objectAssign _ = JObj []"

text \<open>
  \<^verbatim>\<open>keys.reduce((result, key) => result[key], init)\<close>; a read that throws
  ends the reduction.
\<close>

fun reduceProps :: "host \<Rightarrow> jsval \<Rightarrow> string list \<Rightarrow> jsval completion" where
  "reduceProps h result [] = Normal result"
| "reduceProps h result (key # keys) =
     (case getProp h result key of
        Throw e \<Rightarrow> Throw e
      | Normal v \<Rightarrow> reduceProps h v keys)"

text \<open>
  \<^verbatim>\<open>
  const resolve = (tree, key, defaultValue) => {
    try {
      const value = key.split(/\./g)
        .reduce((result, key) => result[key], Object.assign({}, tree));
      return typeof value === 'undefined' ? defaultValue : value;
    } catch (e) {
      return defaultValue;
    }
  };
  \<close>
\<close>

definition resolve :: "host \<Rightarrow> jsval \<Rightarrow> string \<Rightarrow> jsval \<Rightarrow> jsval completion" where
  "resolve h tree key defaultValue =
     (case reduceProps h (objectAssign tree) (splitDots key) of
        Normal v \<Rightarrow> Normal (if v = JUndefined then defaultValue else v)
      | Throw e \<Rightarrow> Normal defaultValue)"

text \<open>
  \<^verbatim>\<open>resolveSetting(settings, defaults)(key)\<close> is
  \<^verbatim>\<open>resolve(settings, key, resolve(defaults, key))\<close>.
\<close>

definition resolveSetting :: "host \<Rightarrow> jsval \<Rightarrow> jsval \<Rightarrow> string \<Rightarrow> jsval completion" where
  "resolveSetting h settings defaults key =
     (case resolve h defaults key JUndefined of
        Throw e \<Rightarrow> Throw e
      | Normal d \<Rightarrow> resolve h settings key d)"

text \<open>
  The specification's reading of a tree: \<open>valueAt t ks\<close> is the value stored at
  the segments \<open>ks\<close> when each segment is a key of the mapping reached so far,
  and \<open>None\<close> when a segment is absent or the walk reaches a value that is not a
  mapping.
\<close>

fun valueAt :: "jsval \<Rightarrow> string list \<Rightarrow> jsval option" where
  "valueAt v [] = Some v"
| "valueAt (JObj kvs) (k # ks) =
     (case map_of kvs k of None \<Rightarrow> None | Some v \<Rightarrow> valueAt v ks)"
| "valueAt _ (k # ks) = None"

text \<open>
  The same walk over own properties of any kind: it also steps into a string
  or an array, by index or \<^verbatim>\<open>length\<close>.
\<close>

fun walkOwn :: "jsval \<Rightarrow> string list \<Rightarrow> jsval option" where
  "walkOwn v [] = Some v"
| "walkOwn r (k # ks) =
     (case ownProp r k of None \<Rightarrow> None | Some v \<Rightarrow> walkOwn v ks)"

text \<open>
  Two paths are disjoint when neither is a prefix of the other, so that
  neither names a value inside the value the other names.
\<close>

fun isPrefix :: "string list \<Rightarrow> string list \<Rightarrow> bool" where
  "isPrefix [] ys = True"
| "isPrefix (x # xs) [] = False"
| "isPrefix (x # xs) (y # ys) = (x = y \<and> isPrefix xs ys)"

definition disjointPaths :: "string list \<Rightarrow> string list \<Rightarrow> bool" where
  "disjointPaths ks1 ks2 = (\<not> isPrefix ks1 ks2 \<and> \<not> isPrefix ks2 ks1)"

fun isMapping :: "jsval \<Rightarrow> bool" where
  "isMapping (JObj kvs) = True"
| "isMapping _ = False"

text \<open>
  The value a tree holds at a path before a write, \<^verbatim>\<open>undefined\<close> when the path
  is absent.
\<close>

definition prior :: "jsval \<Rightarrow> string list \<Rightarrow> jsval" where
  "prior t ks = (case valueAt t ks of Some v \<Rightarrow> v | None \<Rightarrow> JUndefined)"

text \<open>
  A key path is a string of segments separated by dots: \<open>joinDots ks\<close> writes
  the segments \<open>ks\<close> as one.
\<close>

fun joinDots :: "string list \<Rightarrow> string" where
  "joinDots [] = []"
| "joinDots [k] = k"
| "joinDots (k # k' # ks) = k @ CHR ''.'' # joinDots (k' # ks)"

section \<open>Writing a path\<close>

definition protoKey :: string where
  "protoKey = ''__proto__''"

text \<open>
  The loop of \<^verbatim>\<open>resolveNewSetting\<close> builds an object with a single branch:
  \<^verbatim>\<open>
  const object = {};
  const keys = key.split(/\./g);
  let previous = object;
  for (let i = 0; i < keys.length; i++) {
    const j = keys[i];
    const last = i >= keys.length - 1;
    previous[j] = last ? value : {};
    previous = previous[j];
  }
  \<close>
  \<open>buildObject keys leaf\<close> is the list of own properties of \<^verbatim>\<open>previous\<close> once
  the remaining iterations over \<open>keys\<close> have run, \<open>leaf\<close> being the value stored by
  the last one. An assignment to \<^verbatim>\<open>__proto__\<close> creates no own property: it sets
  the prototype of \<^verbatim>\<open>previous\<close>, and the rest of the loop writes into that
  prototype, which the merge below does not read.
\<close>

fun buildObject :: "string list \<Rightarrow> jsval \<Rightarrow> (string \<times> jsval) list" where
  "buildObject [] leaf = []"
| "buildObject (j # js) leaf =
     (if j = protoKey then []
      else [(j, if js = [] then leaf else JObj (buildObject js leaf))])"

text \<open>
  Modelled from the spec: \<^verbatim>\<open>merge\<close> is the function of the package
  \<^verbatim>\<open>deepmerge\<close>, whose code is no part of the sources. The specification gives
  its contract: nested mapping values are merged key by key, recursively;
  scalar and array values are replaced wholesale, not concatenated; the result
  is a new tree. Keys of the source are taken in their order; a key new to the
  target goes last.
\<close>

fun merge :: "jsval \<Rightarrow> jsval \<Rightarrow> jsval"
  and mergeProps :: "(string \<times> jsval) list \<Rightarrow> (string \<times> jsval) list \<Rightarrow> (string \<times> jsval) list" where
  "merge (JObj t) (JObj s) = JObj (mergeProps t s)"
| "merge t s = s"
| "mergeProps t [] = t"
| "mergeProps t ((k, v) # s) =
     mergeProps (setOwn k (case map_of t k of Some tv \<Rightarrow> merge tv v | None \<Rightarrow> v) t) s"

text \<open>
  The revision \<^verbatim>\<open>part_000\<close> coerces the value of one path:
  \<^verbatim>\<open>
  const resolveValue = (key, value) => key === 'desktop.iconview.enabled' // FIXME
    ? value === 'true'
    : value;
  \<close>
\<close>

definition resolveValue :: "string \<Rightarrow> jsval \<Rightarrow> jsval" where
  "resolveValue key value =
     (if key = ''desktop.iconview.enabled'' then JBool (value = JStr ''true'') else value)"

section \<open>The view state and its actions\<close>

record viewState =
  loading :: bool
  locales :: jsval
  themes :: jsval
  defaults :: jsval
  settings :: jsval

text \<open>
  An action returns a partial state, \<^verbatim>\<open>{settings}\<close> or \<^verbatim>\<open>{loading}\<close>, which
  the view library (hyperapp, no part of the sources) assigns onto the state:
  the fields named are replaced, the others are kept.
\<close>

datatype partialState = PSettings jsval | PLoading bool

fun assignState :: "viewState \<Rightarrow> partialState \<Rightarrow> viewState" where
  "assignState state (PSettings t) = state\<lparr>settings := t\<rparr>"
| "assignState state (PLoading l) = state\<lparr>loading := l\<rparr>"

text \<open>
  \<^verbatim>\<open>resolveNewSetting\<close> ends with
  \<^verbatim>\<open>const settings = merge(state.settings, object); return {settings};\<close>.
  In \<^verbatim>\<open>part_000\<close> the last iteration stores \<^verbatim>\<open>resolveValue(key, value)\<close>,
  in \<^verbatim>\<open>index.js\<close> it stores \<^verbatim>\<open>value\<close>.
\<close>

definition resolveNewSetting :: "viewState \<Rightarrow> string \<Rightarrow> jsval \<Rightarrow> partialState" where
  "resolveNewSetting state key value =
     PSettings (merge (settings state)
       (JObj (buildObject (splitDots key) (resolveValue key value))))"

definition resolveNewSetting_index :: "viewState \<Rightarrow> string \<Rightarrow> jsval \<Rightarrow> partialState" where
  "resolveNewSetting_index state key value =
     PSettings (merge (settings state) (JObj (buildObject (splitDots key) value)))"

text \<open>
  \<^verbatim>\<open>update: ({path, value}) => state => resolveNewSetting(state)(path, value)\<close>,
  in both files, each with its own \<^verbatim>\<open>resolveNewSetting\<close>.
\<close>

definition update :: "string \<Rightarrow> jsval \<Rightarrow> viewState \<Rightarrow> viewState" where
  "update path value state = assignState state (resolveNewSetting state path value)"

definition update_index :: "string \<Rightarrow> jsval \<Rightarrow> viewState \<Rightarrow> viewState" where
  "update_index path value state = assignState state (resolveNewSetting_index state path value)"

text \<open>\<^verbatim>\<open>setLoading: loading => state => ({loading})\<close>\<close>

definition setLoading :: "bool \<Rightarrow> viewState \<Rightarrow> viewState" where
  "setLoading l state = assignState state (PLoading l)"

text \<open>
  \<^verbatim>\<open>refresh: () => () => ({settings: getSettings()})\<close>; \<open>fetched\<close> is what
  \<^verbatim>\<open>getSettings()\<close> reads from the settings service.
\<close>

definition refresh :: "jsval \<Rightarrow> viewState \<Rightarrow> viewState" where
  "refresh fetched state = assignState state (PSettings fetched)"

section \<open>Saving\<close>

text \<open>
  \<^verbatim>\<open>
  save: () => (state, actions) => {
    if (state.loading) {
      return;
    }
    actions.setLoading(true);
    setSettings(state.settings)
      .then(() => {
        actions.setLoading(false);
        desktopService.applySettings();
      })
      .catch(error => {
        actions.setLoading(false);
        console.error(error); // FIXME
      });
  },
  \<close>
  The calls to the collaborators are recorded in a trace. \<open>pending\<close> counts the
  promises that \<^verbatim>\<open>setSettings\<close> has returned and that are not settled yet.
\<close>

datatype effect = SetSettings jsval | ApplySettings | ConsoleError jsval

record world =
  view :: viewState
  pending :: nat
  trace :: "effect list"

definition save :: "world \<Rightarrow> world" where
  "save w =
     (if loading (view w) then w
      else w\<lparr>view := setLoading True (view w),
             pending := Suc (pending w),
             trace := trace w @ [SetSettings (settings (view w))]\<rparr>)"

text \<open>
  The callback of \<^verbatim>\<open>then\<close>. \<open>applied\<close> is the outcome of
  \<^verbatim>\<open>desktopService.applySettings()\<close>: when that call throws, the promise that
  \<^verbatim>\<open>then\<close> returned rejects and the callback of \<^verbatim>\<open>catch\<close> runs as well.
\<close>

definition onFailed :: "jsval \<Rightarrow> world \<Rightarrow> world" where
  "onFailed error w =
     w\<lparr>view := setLoading False (view w), trace := trace w @ [ConsoleError error]\<rparr>"

definition onSaved :: "jsval option \<Rightarrow> world \<Rightarrow> world" where
  "onSaved applied w =
     (let w' = w\<lparr>view := setLoading False (view w), trace := trace w @ [ApplySettings]\<rparr>
      in case applied of None \<Rightarrow> w' | Some error \<Rightarrow> onFailed error w')"

text \<open>
  What can happen to an open editor: the user saves or edits, a pending
  promise is fulfilled or rejected, a refresh arrives. A promise settles once,
  so with no promise pending the two settling events do not occur: \<open>step\<close>
  passes over them.
\<close>

datatype event =
    Save
  | Saved "jsval option"
  | Failed jsval
  | Update string jsval
  | Refresh jsval

fun step :: "world \<Rightarrow> event \<Rightarrow> world" where
  "step w Save = save w"
| "step w (Saved applied) =
     (if pending w = 0 then w else onSaved applied (w\<lparr>pending := pending w - 1\<rparr>))"
| "step w (Failed error) =
     (if pending w = 0 then w else onFailed error (w\<lparr>pending := pending w - 1\<rparr>))"
| "step w (Update path value) = w\<lparr>view := update path value (view w)\<rparr>"
| "step w (Refresh fetched) = w\<lparr>view := refresh fetched (view w)\<rparr>"

definition run :: "world \<Rightarrow> event list \<Rightarrow> world" where
  "run w es = foldl step w es"

text \<open>
  \<^verbatim>\<open>initialState\<close> has \<^verbatim>\<open>loading: false\<close>; nothing has been saved yet.
  The four values are what \<^verbatim>\<open>getLocales()\<close>, \<^verbatim>\<open>getThemes()\<close>,
  \<^verbatim>\<open>getDefaults()\<close> and \<^verbatim>\<open>getSettings()\<close> return when the window is
  rendered.
\<close>

definition initialWorld :: "jsval \<Rightarrow> jsval \<Rightarrow> jsval \<Rightarrow> jsval \<Rightarrow> world" where
  "initialWorld ls ts ds ss =
     \<lparr>view = \<lparr>loading = False, locales = ls, themes = ts, defaults = ds, settings = ss\<rparr>,
      pending = 0, trace = []\<rparr>"

text \<open>
  The save lifecycle is idle, saving, idle: at most one promise is pending,
  and the loading flag is set exactly while one is.
\<close>

definition singleFlight :: "world \<Rightarrow> bool" where
  "singleFlight w = (pending w \<le> 1 \<and> (loading (view w) = (pending w = 1)))"

section \<open>Field dispatch\<close>

text \<open>
  \<^verbatim>\<open>fieldMap\<close> returns an object of three functions, \<^verbatim>\<open>select\<close>,
  \<^verbatim>\<open>dialog\<close> and \<^verbatim>\<open>fallback\<close>.
\<close>

definition fieldMap :: jsval where
  "fieldMap = JObj [(''select'', JOpaque ''select''), (''dialog'', JOpaque ''dialog''),
     (''fallback'', JOpaque ''fallback'')]"

text \<open>The values that \<^verbatim>\<open>||\<close> passes over are the falsy ones.\<close>

fun truthy :: "jsval \<Rightarrow> bool" where
  "truthy JUndefined = False"
| "truthy JNull = False"
| "truthy (JBool b) = b"
| "truthy (JNum n) = (n \<noteq> 0)"
| "truthy (JStr s) = (s \<noteq> [])"
| "truthy _ = True"

text \<open>
  \<^verbatim>\<open>const item = fields[props.type] || fields.fallback;\<close> in \<^verbatim>\<open>Item\<close>
  (\<^verbatim>\<open>index.js\<close>), and the same expression in \<^verbatim>\<open>renderSections\<close>
  (\<^verbatim>\<open>part_000\<close>).
\<close>

definition item :: "host \<Rightarrow> string \<Rightarrow> jsval completion" where
  "item h type =
     (case getProp h fieldMap type of
        Throw e \<Rightarrow> Throw e
      | Normal v \<Rightarrow> if truthy v then Normal v else getProp h fieldMap ''fallback'')"

section \<open>A runtime\<close>

text \<open>
  The properties that every plain object inherits from \<^verbatim>\<open>Object.prototype\<close> in
  a browser, each a built-in function, but for \<^verbatim>\<open>__proto__\<close>, whose accessor
  yields the prototype object itself.
\<close>

definition objectPrototype :: "(string \<times> jsval) list" where
  "objectPrototype =
     [(''constructor'', JOpaque ''Object''),
      (''hasOwnProperty'', JOpaque ''Object.prototype.hasOwnProperty''),
      (''isPrototypeOf'', JOpaque ''Object.prototype.isPrototypeOf''),
      (''propertyIsEnumerable'', JOpaque ''Object.prototype.propertyIsEnumerable''),
      (''toLocaleString'', JOpaque ''Object.prototype.toLocaleString''),
      (''toString'', JOpaque ''Object.prototype.toString''),
      (''valueOf'', JOpaque ''Object.prototype.valueOf''),
      (''__defineGetter__'', JOpaque ''Object.prototype.__defineGetter__''),
      (''__defineSetter__'', JOpaque ''Object.prototype.__defineSetter__''),
      (''__lookupGetter__'', JOpaque ''Object.prototype.__lookupGetter__''),
      (''__lookupSetter__'', JOpaque ''Object.prototype.__lookupSetter__''),
      (''__proto__'', JOpaque ''Object.prototype'')]"

text \<open>
  \<open>plainHost\<close> is this part of a runtime: what plain objects inherit. It is the
  runtime of the concrete evaluations below. The prototypes of strings,
  numbers, booleans, arrays and functions are not listed: for such a receiver
  it answers \<^verbatim>\<open>undefined\<close>, which is right for the one name the evaluations
  look up there (\<^verbatim>\<open>a\<close>, on a number), not for every name.
\<close>

fun plainHost :: host where
  "plainHost (JObj kvs) k =
     (case map_of objectPrototype k of Some v \<Rightarrow> Normal v | None \<Rightarrow> Normal JUndefined)"
| "plainHost r k = Normal JUndefined"

section \<open>Facts about reading\<close>

lemma getProp_own: "ownProp r k = Some v \<Longrightarrow> getProp h r k = Normal v"
  by (cases r) simp_all

lemma getProp_not_own:
  "ownProp r k = None \<Longrightarrow>
   getProp h r k = (if r = JUndefined \<or> r = JNull then Throw TypeError else h r k)"
  by (cases r) simp_all

lemma reduceProps_undefined:
  "reduceProps h JUndefined ks = (if ks = [] then Normal JUndefined else Throw TypeError)"
  by (cases ks) simp_all

lemma reduceProps_walkOwn: "walkOwn r ks = Some v \<Longrightarrow> reduceProps h r ks = Normal v"
proof (induction ks arbitrary: r)
  case Nil
  then show ?case by simp
next
  case (Cons k ks)
  then obtain u where u: "ownProp r k = Some u" and w: "walkOwn u ks = Some v"
    by (auto split: option.splits)
  from u have "getProp h r k = Normal u" by (rule getProp_own)
  with Cons.IH [OF w] show ?case by simp
qed

lemma reduceProps_absent:
  assumes "walkOwn r ks = None" and "\<And>r' k. k \<in> set ks \<Longrightarrow> h r' k = Normal JUndefined"
  shows "reduceProps h r ks = Normal JUndefined \<or> (\<exists>e. reduceProps h r ks = Throw e)"
  using assms
proof (induction ks arbitrary: r)
  case Nil
  then show ?case by simp
next
  case (Cons k ks)
  show ?case
  proof (cases "ownProp r k")
    case None
    have hk: "h r k = Normal JUndefined" using Cons.prems(2) by simp
    show ?thesis
      using None hk by (simp add: getProp_not_own reduceProps_undefined)
  next
    case (Some u)
    with Cons.prems(1) have w: "walkOwn u ks = None" by simp
    have "reduceProps h u ks = Normal JUndefined \<or> (\<exists>e. reduceProps h u ks = Throw e)"
      using Cons.IH [OF w] Cons.prems(2) by simp
    then show ?thesis using Some by (simp add: getProp_own)
  qed
qed

lemma valueAt_walkOwn: "valueAt t ks = Some v \<Longrightarrow> walkOwn t ks = Some v"
  by (induction t ks rule: valueAt.induct) (auto split: option.splits)

lemma splitDots_nonempty: "splitDots s \<noteq> []"
  by (induction s) (auto split: list.splits)

lemma valueAt_present_obj: "valueAt t ks = Some v \<Longrightarrow> ks \<noteq> [] \<Longrightarrow> objectAssign t = t"
  by (cases t; cases ks) simp_all

lemma resolve_present:
  assumes "valueAt t (splitDots key) = Some v"
  shows "resolve h t key fb = Normal (if v = JUndefined then fb else v)"
proof -
  have "objectAssign t = t"
    using assms by (rule valueAt_present_obj) (rule splitDots_nonempty)
  with assms have "walkOwn (objectAssign t) (splitDots key) = Some v"
    by (simp add: valueAt_walkOwn)
  then show ?thesis
    by (simp add: resolve_def reduceProps_walkOwn)
qed

lemma plainHost_none: "map_of objectPrototype k = None \<Longrightarrow> plainHost r k = Normal JUndefined"
  by (cases r) simp_all

subsection \<open>Claim C1\<close>

text \<open>
  C1 as stated fails twice. A string reached with segments left is not a
  dead end: \<^verbatim>\<open>resolve({desktop: {theme: 'dark'}}, 'desktop.theme.length', 'x')\<close>
  is \<^verbatim>\<open>4\<close>, though the walk has narrowed to a value that is no mapping. And
  on the empty tree a segment that names a property every object inherits is
  found: \<^verbatim>\<open>resolve({}, 'toString', 'x')\<close> is a function, not \<^verbatim>\<open>'x'\<close>.
\<close>

theorem resolve_fallback_counterexample:
  "valueAt (JObj [(''desktop'', JObj [(''theme'', JStr ''dark'')])])
     (splitDots ''desktop.theme.length'') = None \<and>
   resolve plainHost (JObj [(''desktop'', JObj [(''theme'', JStr ''dark'')])])
     ''desktop.theme.length'' (JStr ''x'') = Normal (JNum 4) \<and>
   valueAt (JObj []) (splitDots ''toString'') = None \<and>
   resolve plainHost (JObj []) ''toString'' (JStr ''x'')
     = Normal (JOpaque ''Object.prototype.toString'')"
  by (simp add: resolve_def objectPrototype_def)

text \<open>
  C1, amended. For every runtime, tree, path and fallback, \<open>resolve\<close> returns a
  value: it never faults. If the path is present in the tree, every segment
  being a key of the mapping reached, \<open>resolve\<close> returns the value stored
  there, and the fallback when that value is \<^verbatim>\<open>undefined\<close>. The same holds
  when the walk goes on through own properties of a string or an array (an
  index, \<^verbatim>\<open>length\<close>). When the walk over own properties fails, because a
  segment is no own property of the value reached or that value is
  \<^verbatim>\<open>undefined\<close> or \<^verbatim>\<open>null\<close>, and the runtime's prototypes supply no property
  named by a segment of the path, \<open>resolve\<close> returns the fallback.
\<close>

theorem resolve_total_walk:
  "(\<exists>v. resolve h tree key fb = Normal v) \<and>
   (\<forall>v. valueAt tree (splitDots key) = Some v \<longrightarrow>
      resolve h tree key fb = Normal (if v = JUndefined then fb else v)) \<and>
   (\<forall>v. walkOwn (objectAssign tree) (splitDots key) = Some v \<longrightarrow>
      resolve h tree key fb = Normal (if v = JUndefined then fb else v)) \<and>
   (walkOwn (objectAssign tree) (splitDots key) = None \<and>
      (\<forall>r. \<forall>k \<in> set (splitDots key). h r k = Normal JUndefined) \<longrightarrow>
      resolve h tree key fb = Normal fb)"
proof (intro conjI allI impI)
  show "\<exists>v. resolve h tree key fb = Normal v"
    by (simp add: resolve_def split: completion.split)
next
  fix v assume "walkOwn (objectAssign tree) (splitDots key) = Some v"
  then show "resolve h tree key fb = Normal (if v = JUndefined then fb else v)"
    by (simp add: resolve_def reduceProps_walkOwn)
next
  fix v assume "valueAt tree (splitDots key) = Some v"
  then show "resolve h tree key fb = Normal (if v = JUndefined then fb else v)"
    by (rule resolve_present)
next
  assume a: "walkOwn (objectAssign tree) (splitDots key) = None \<and>
      (\<forall>r. \<forall>k \<in> set (splitDots key). h r k = Normal JUndefined)"
  then have "reduceProps h (objectAssign tree) (splitDots key) = Normal JUndefined
      \<or> (\<exists>e. reduceProps h (objectAssign tree) (splitDots key) = Throw e)"
    by (intro reduceProps_absent) auto
  then show "resolve h tree key fb = Normal fb"
    by (auto simp: resolve_def)
qed

text \<open>
  A present path, a path absent at its last segment, and a path absent from
  the empty tree at its first segment.
\<close>

theorem resolve_total_walk_witness:
  "resolve plainHost (JObj [(''desktop'', JObj [(''theme'', JStr ''dark'')])])
     ''desktop.theme'' (JStr ''x'') = Normal (JStr ''dark'') \<and>
   resolve plainHost (JObj [(''desktop'', JObj [(''theme'', JStr ''dark'')])])
     ''desktop.icons'' (JStr ''x'') = Normal (JStr ''x'') \<and>
   resolve plainHost (JObj []) ''desktop.background.color'' (JStr ''x'') = Normal (JStr ''x'')"
  using
    resolve_total_walk [of plainHost "JObj [(''desktop'', JObj [(''theme'', JStr ''dark'')])]"
      "''desktop.theme''" "JStr ''x''"]
    resolve_total_walk [of plainHost "JObj [(''desktop'', JObj [(''theme'', JStr ''dark'')])]"
      "''desktop.icons''" "JStr ''x''"]
    resolve_total_walk [of plainHost "JObj []" "''desktop.background.color''" "JStr ''x''"]
  by (simp add: plainHost_none objectPrototype_def)

section \<open>Facts about writing\<close>

lemma map_of_setOwn: "map_of (setOwn k v ps) = (map_of ps)(k \<mapsto> v)"
  by (induction ps) (auto simp: fun_eq_iff)

lemma merge_not_mapping_left: "\<not> isMapping t \<Longrightarrow> merge t s = s"
  by (cases t; cases s) simp_all

lemma merge_not_mapping_right: "\<not> isMapping s \<Longrightarrow> merge t s = s"
  by (cases t; cases s) simp_all

lemma merge_single:
  "merge (JObj t) (JObj [(k, x)]) =
     JObj (setOwn k (case map_of t k of Some tv \<Rightarrow> merge tv x | None \<Rightarrow> x) t)"
  by simp

lemma valueAt_nonmapping: "\<not> isMapping t \<Longrightarrow> ks \<noteq> [] \<Longrightarrow> valueAt t ks = None"
  by (cases t; cases ks) simp_all

lemma prior_nonmapping: "\<not> isMapping t \<Longrightarrow> ks \<noteq> [] \<Longrightarrow> prior t ks = JUndefined"
  by (simp add: prior_def valueAt_nonmapping)

lemma valueAt_buildObject:
  "protoKey \<notin> set ks \<Longrightarrow> ks \<noteq> [] \<Longrightarrow> valueAt (JObj (buildObject ks w)) ks = Some w"
  by (induction ks) auto

lemma valueAt_written:
  "protoKey \<notin> set ks \<Longrightarrow> ks \<noteq> [] \<Longrightarrow>
   valueAt (merge t (JObj (buildObject ks w))) ks = Some (merge (prior t ks) w)"
proof (induction ks arbitrary: t)
  case Nil
  then show ?case by simp
next
  case (Cons k ks)
  from Cons.prems have kp: "k \<noteq> protoKey" and ksp: "protoKey \<notin> set ks" by auto
  show ?case
  proof (cases "isMapping t")
    case False
    then show ?thesis
      using Cons.prems valueAt_buildObject [of "k # ks" w]
      by (simp add: merge_not_mapping_left prior_nonmapping del: buildObject.simps)
  next
    case True
    then obtain kvs where t: "t = JObj kvs" by (cases t) simp_all
    show ?thesis
    proof (cases "ks = []")
      case True
      then show ?thesis
        using kp t
        by (simp add: map_of_setOwn prior_def merge_not_mapping_left split: option.splits)
    next
      case False
      have ih: "\<And>u. valueAt (merge u (JObj (buildObject ks w))) ks = Some (merge (prior u ks) w)"
        using Cons.IH ksp False by simp
      show ?thesis
      proof (cases "map_of kvs k")
        case None
        have "valueAt (merge JUndefined (JObj (buildObject ks w))) ks = Some (merge (prior JUndefined ks) w)"
          by (rule ih)
        then show ?thesis
          using kp t False None
          by (simp add: map_of_setOwn prior_def valueAt_nonmapping)
      next
        case (Some u)
        then show ?thesis
          using kp t False ih [of u]
          by (simp add: map_of_setOwn prior_def)
      qed
    qed
  qed
qed

lemma disjointPaths_Cons:
  "disjointPaths (k1 # r1) (k2 # r2) = (k1 \<noteq> k2 \<or> disjointPaths r1 r2)"
  by (auto simp: disjointPaths_def)

lemma disjointPaths_nonempty: "disjointPaths ks1 ks2 \<Longrightarrow> ks1 \<noteq> [] \<and> ks2 \<noteq> []"
  by (cases ks1; cases ks2) (auto simp: disjointPaths_def)

lemma valueAt_sibling:
  "valueAt t ks2 = Some v \<Longrightarrow> disjointPaths ks1 ks2 \<Longrightarrow>
   valueAt (merge t (JObj (buildObject ks1 w))) ks2 = Some v"
proof (induction ks1 arbitrary: t ks2)
  case Nil
  then show ?case by (simp add: disjointPaths_def)
next
  case (Cons k1 r1)
  from Cons.prems(2) obtain k2 r2 where ks2: "ks2 = k2 # r2"
    by (cases ks2) (auto simp: disjointPaths_def)
  from Cons.prems(1) ks2 obtain kvs u where t: "t = JObj kvs"
    and u: "map_of kvs k2 = Some u" and v: "valueAt u r2 = Some v"
    by (cases t) (auto split: option.splits)
  show ?case
  proof (cases "k1 = protoKey")
    case True
    then show ?thesis using Cons.prems(1) t by simp
  next
    case False
    show ?thesis
    proof (cases "k1 = k2")
      case neq: False
      then show ?thesis using False t ks2 u v by (simp add: map_of_setOwn)
    next
      case True
      with Cons.prems(2) ks2 have d: "disjointPaths r1 r2"
        by (simp add: disjointPaths_Cons)
      then have r1: "r1 \<noteq> []" by (simp add: disjointPaths_nonempty)
      have "valueAt (merge u (JObj (buildObject r1 w))) r2 = Some v"
        using v d by (rule Cons.IH)
      then show ?thesis using False True t ks2 u r1 by (simp add: map_of_setOwn)
    qed
  qed
qed

lemma settings_update_index:
  "settings (update_index path value s) =
     merge (settings s) (JObj (buildObject (splitDots path) value))"
  by (simp add: update_index_def resolveNewSetting_index_def)

lemma settings_update:
  "settings (update path value s) =
     merge (settings s) (JObj (buildObject (splitDots path) (resolveValue path value)))"
  by (simp add: update_def resolveNewSetting_def)

lemma resolve_written:
  assumes "protoKey \<notin> set (splitDots key)" and "w \<noteq> JUndefined"
    and "\<not> (isMapping w \<and> isMapping (prior t (splitDots key)))"
  shows "resolve h (merge t (JObj (buildObject (splitDots key) w))) key fb = Normal w"
proof -
  have "valueAt (merge t (JObj (buildObject (splitDots key) w))) (splitDots key)
      = Some (merge (prior t (splitDots key)) w)"
    using assms(1) by (intro valueAt_written) (simp_all add: splitDots_nonempty)
  moreover have "merge (prior t (splitDots key)) w = w"
    using assms(3) by (auto simp: merge_not_mapping_left merge_not_mapping_right)
  ultimately show ?thesis
    using assms(2) by (simp add: resolve_present)
qed

subsection \<open>Claim C2\<close>

text \<open>
  C2 as stated fails when the value written is a mapping and the tree already
  holds a mapping at the path: the two are merged, and the read returns the
  merge. Choosing a second background image whose file object lacks a key of
  the first keeps that key. In \<^verbatim>\<open>part_000\<close> it also fails on the coerced
  path: the string \<^verbatim>\<open>'false'\<close> is read back as the boolean \<^verbatim>\<open>false\<close>.
  Two more cases: \<^verbatim>\<open>undefined\<close> is read back as the fallback, and a write
  to \<^verbatim>\<open>__proto__\<close> stores nothing.
\<close>

theorem roundtrip_counterexample:
  "resolve plainHost
     (settings (update_index ''desktop.background.src'' (JObj [(''path'', JStr ''b.png'')])
        \<lparr>loading = False, locales = JObj [], themes = JObj [], defaults = JObj [],
         settings = JObj [(''desktop'', JObj [(''background'', JObj [(''src'',
           JObj [(''path'', JStr ''a.png''), (''id'', JNum 1)])])])]\<rparr>))
     ''desktop.background.src'' JUndefined
   = Normal (JObj [(''path'', JStr ''b.png''), (''id'', JNum 1)]) \<and>
   resolve plainHost
     (settings (update ''desktop.iconview.enabled'' (JStr ''false'')
        \<lparr>loading = False, locales = JObj [], themes = JObj [], defaults = JObj [],
         settings = JObj []\<rparr>))
     ''desktop.iconview.enabled'' JUndefined
   = Normal (JBool False) \<and>
   resolve plainHost
     (settings (update_index ''desktop.theme'' JUndefined
        \<lparr>loading = False, locales = JObj [], themes = JObj [], defaults = JObj [],
         settings = JObj []\<rparr>))
     ''desktop.theme'' (JStr ''x'')
   = Normal (JStr ''x'') \<and>
   resolve plainHost
     (settings (update_index ''__proto__'' (JNum 1)
        \<lparr>loading = False, locales = JObj [], themes = JObj [], defaults = JObj [],
         settings = JObj []\<rparr>))
     ''__proto__'' (JStr ''x'')
   = Normal (JOpaque ''Object.prototype'')"
  by (simp add: resolve_def update_index_def update_def resolveNewSetting_index_def
      resolveNewSetting_def resolveValue_def protoKey_def objectPrototype_def)

text \<open>
  C2, amended. Let \<open>W\<close> be the value that \<open>update\<close> stores: \<open>V\<close> itself in
  \<^verbatim>\<open>index.js\<close>, \<open>resolveValue P V\<close> in \<^verbatim>\<open>part_000\<close>. For every runtime,
  state, path \<open>P\<close> with no segment \<^verbatim>\<open>__proto__\<close>, and fallback: if \<open>W\<close> is not
  \<^verbatim>\<open>undefined\<close>, and \<open>W\<close> is not a mapping or the tree holds no mapping at
  \<open>P\<close>, then resolving \<open>P\<close> from the updated tree yields exactly \<open>W\<close>.
\<close>

theorem roundtrip:
  "(protoKey \<notin> set (splitDots P) \<and> V \<noteq> JUndefined \<and>
      \<not> (isMapping V \<and> isMapping (prior (settings s) (splitDots P))) \<longrightarrow>
      resolve h (settings (update_index P V s)) P fb = Normal V) \<and>
   (protoKey \<notin> set (splitDots P) \<and> resolveValue P V \<noteq> JUndefined \<and>
      \<not> (isMapping (resolveValue P V) \<and> isMapping (prior (settings s) (splitDots P))) \<longrightarrow>
      resolve h (settings (update P V s)) P fb = Normal (resolveValue P V))"
  by (simp add: settings_update settings_update_index resolve_written)

theorem roundtrip_witness:
  "resolve plainHost
     (settings (update_index ''desktop.theme'' (JStr ''dark'')
        \<lparr>loading = False, locales = JObj [], themes = JObj [], defaults = JObj [],
         settings = JObj []\<rparr>))
     ''desktop.theme'' JUndefined = Normal (JStr ''dark'') \<and>
   resolve plainHost
     (settings (update ''desktop.theme'' (JStr ''dark'')
        \<lparr>loading = False, locales = JObj [], themes = JObj [], defaults = JObj [],
         settings = JObj []\<rparr>))
     ''desktop.theme'' JUndefined = Normal (JStr ''dark'')"
  using roundtrip [of "''desktop.theme''" "JStr ''dark''"
      "\<lparr>loading = False, locales = JObj [], themes = JObj [], defaults = JObj [],
         settings = JObj []\<rparr>" plainHost JUndefined]
  by (simp add: protoKey_def resolveValue_def)

subsection \<open>Claim C3\<close>

text \<open>
  C3. For every runtime, state and fallback, and for disjoint paths \<open>P1\<close> and
  \<open>P2\<close>: if \<open>P2\<close> is present in the settings tree, then after \<open>update\<close> has
  written any \<open>V1\<close> at \<open>P1\<close>, resolving \<open>P2\<close> yields what it yielded before,
  which is the value \<open>V2\<close> held at \<open>P2\<close> (a value, not \<^verbatim>\<open>undefined\<close>, which
  stands for absence). This holds for the \<open>update\<close> of both files.
\<close>

theorem sibling_preserved:
  "disjointPaths (splitDots P1) (splitDots P2) \<and>
   valueAt (settings s) (splitDots P2) = Some V2 \<longrightarrow>
   resolve h (settings (update P1 V1 s)) P2 fb = resolve h (settings s) P2 fb \<and>
   resolve h (settings (update_index P1 V1 s)) P2 fb = resolve h (settings s) P2 fb \<and>
   (V2 \<noteq> JUndefined \<longrightarrow>
      resolve h (settings (update P1 V1 s)) P2 fb = Normal V2 \<and>
      resolve h (settings (update_index P1 V1 s)) P2 fb = Normal V2)"
  by (simp add: settings_update settings_update_index valueAt_sibling resolve_present)

text \<open>
  The scenario of the specification: \<^verbatim>\<open>desktop.background.style\<close> is
  \<^verbatim>\<open>'cover'\<close>, then \<^verbatim>\<open>desktop.background.color\<close> is written.
\<close>

theorem sibling_preserved_witness:
  "resolve plainHost
     (settings (update ''desktop.background.color'' (JStr ''#fff'')
        \<lparr>loading = False, locales = JObj [], themes = JObj [], defaults = JObj [],
         settings = JObj [(''desktop'', JObj [(''background'',
           JObj [(''style'', JStr ''cover'')])])]\<rparr>))
     ''desktop.background.style'' JUndefined = Normal (JStr ''cover'') \<and>
   resolve plainHost
     (settings (update_index ''desktop.background.color'' (JStr ''#fff'')
        \<lparr>loading = False, locales = JObj [], themes = JObj [], defaults = JObj [],
         settings = JObj [(''desktop'', JObj [(''background'',
           JObj [(''style'', JStr ''cover'')])])]\<rparr>))
     ''desktop.background.style'' JUndefined = Normal (JStr ''cover'')"
  using sibling_preserved [of "''desktop.background.color''" "''desktop.background.style''"
      "\<lparr>loading = False, locales = JObj [], themes = JObj [], defaults = JObj [],
         settings = JObj [(''desktop'', JObj [(''background'',
           JObj [(''style'', JStr ''cover'')])])]\<rparr>" "JStr ''cover''" plainHost
      "JStr ''#fff''" JUndefined]
  by (simp add: disjointPaths_def resolve_def)

subsection \<open>The merge, key by key\<close>

text \<open>
  With the keys of the source distinct, a key of the source alone is added, a
  key of the target alone is kept, and a key of both holds the merge of the
  two values.
\<close>

lemma map_of_mergeProps:
  "distinct (map fst s) \<Longrightarrow>
   map_of (mergeProps t s) k =
     (case map_of s k of
        None \<Rightarrow> map_of t k
      | Some sv \<Rightarrow> Some (case map_of t k of Some tv \<Rightarrow> merge tv sv | None \<Rightarrow> sv))"
proof (induction s arbitrary: t)
  case Nil
  then show ?case by simp
next
  case (Cons p s)
  obtain k1 v1 where p: "p = (k1, v1)" by (cases p)
  from Cons.prems p have d: "distinct (map fst s)" and n: "map_of s k1 = None"
    by (auto simp: map_of_eq_None_iff)
  show ?case
    using Cons.IH [OF d] n p by (auto simp: map_of_setOwn split: option.splits)
qed

subsection \<open>Claim C5\<close>

lemma splitDots_dotless: "CHR ''.'' \<notin> set k \<Longrightarrow> splitDots k = [k]"
  by (induction k) auto

lemma splitDots_segment:
  "CHR ''.'' \<notin> set k \<Longrightarrow> splitDots (k @ CHR ''.'' # rest) = k # splitDots rest"
  by (induction k) auto

lemma splitDots_joinDots:
  "ks \<noteq> [] \<Longrightarrow> \<forall>k \<in> set ks. CHR ''.'' \<notin> set k \<Longrightarrow> splitDots (joinDots ks) = ks"
  by (induction ks rule: joinDots.induct) (simp_all add: splitDots_dotless splitDots_segment)

lemma joinDots_iconview:
  assumes "ks \<noteq> []" and "\<forall>k \<in> set ks. CHR ''.'' \<notin> set k"
    and "ks \<noteq> [''desktop'', ''iconview'', ''enabled'']"
  shows "joinDots ks \<noteq> ''desktop.iconview.enabled''"
proof
  assume "joinDots ks = ''desktop.iconview.enabled''"
  then have "splitDots (joinDots ks) = splitDots ''desktop.iconview.enabled''" by simp
  then have "ks = [''desktop'', ''iconview'', ''enabled'']"
    using assms(1,2) by (simp add: splitDots_joinDots)
  with assms(3) show False by simp
qed

text \<open>
  C5 as stated fails twice. The value that ends up at the path is not always
  the incoming one: in \<^verbatim>\<open>part_000\<close>, a file object written at
  \<^verbatim>\<open>desktop.background.src\<close> over another is merged with it. And
  \<^verbatim>\<open>index.js\<close> has no coercion at all: there
  \<^verbatim>\<open>update({path: 'desktop.iconview.enabled', value: 'true'})\<close> stores the
  string \<^verbatim>\<open>'true'\<close>, not a boolean.
\<close>

theorem coercion_counterexample:
  "valueAt (settings (update ''desktop.background.src'' (JObj [(''path'', JStr ''b.png'')])
        \<lparr>loading = False, locales = JObj [], themes = JObj [], defaults = JObj [],
         settings = JObj [(''desktop'', JObj [(''background'', JObj [(''src'',
           JObj [(''path'', JStr ''a.png''), (''id'', JNum 1)])])])]\<rparr>))
     [''desktop'', ''background'', ''src'']
   = Some (JObj [(''path'', JStr ''b.png''), (''id'', JNum 1)]) \<and>
   valueAt (settings (update_index ''desktop.iconview.enabled'' (JStr ''true'')
        \<lparr>loading = False, locales = JObj [], themes = JObj [], defaults = JObj [],
         settings = JObj []\<rparr>))
     [''desktop'', ''iconview'', ''enabled'']
   = Some (JStr ''true'')"
  by (simp add: update_index_def update_def resolveNewSetting_index_def
      resolveNewSetting_def resolveValue_def protoKey_def)

text \<open>
  C5, amended. In \<^verbatim>\<open>part_000\<close>, \<open>update\<close> writes \<open>resolveValue path value\<close>
  the way \<^verbatim>\<open>index.js\<close> writes the value itself. After an update of
  \<^verbatim>\<open>desktop.iconview.enabled\<close> the tree holds under \<^verbatim>\<open>desktop\<close>, then
  \<^verbatim>\<open>iconview\<close>, then \<^verbatim>\<open>enabled\<close> the boolean \<^verbatim>\<open>value === 'true'\<close>:
  true for the string \<^verbatim>\<open>'true'\<close>, false for everything else, the boolean
  \<^verbatim>\<open>true\<close> included. Every other path is given by its segments, joined by
  dots; no segment holds a dot or is \<^verbatim>\<open>__proto__\<close>. After an update of such a
  path the tree holds at those segments, one mapping inside the other, the
  incoming value unchanged, unless that value and the value held there before
  are both mappings. In \<^verbatim>\<open>index.js\<close> the same holds for every path,
  \<^verbatim>\<open>desktop.iconview.enabled\<close> included: no value is coerced. For every
  path but that one \<open>resolveValue\<close> returns the value as it came.
\<close>

theorem update_stores_coerced:
  "valueAt (settings (update ''desktop.iconview.enabled'' value s))
     [''desktop'', ''iconview'', ''enabled''] = Some (JBool (value = JStr ''true'')) \<and>
   valueAt (settings (update ''desktop.iconview.enabled'' (JBool True) s))
     [''desktop'', ''iconview'', ''enabled''] = Some (JBool False) \<and>
   (ks \<noteq> [] \<and> (\<forall>k \<in> set ks. CHR ''.'' \<notin> set k) \<and> protoKey \<notin> set ks \<and>
    \<not> (isMapping value \<and> isMapping (prior (settings s) ks)) \<longrightarrow>
      (ks \<noteq> [''desktop'', ''iconview'', ''enabled''] \<longrightarrow>
         valueAt (settings (update (joinDots ks) value s)) ks = Some value) \<and>
      valueAt (settings (update_index (joinDots ks) value s)) ks = Some value) \<and>
   (path \<noteq> ''desktop.iconview.enabled'' \<longrightarrow> resolveValue path value = value) \<and>
   update_index path (resolveValue path value) s = update path value s"
proof (intro conjI impI)
  show "update_index path (resolveValue path value) s = update path value s"
    by (simp add: update_def update_index_def resolveNewSetting_def resolveNewSetting_index_def)
  show "resolveValue path value = value" if "path \<noteq> ''desktop.iconview.enabled''"
    using that by (simp add: resolveValue_def)
next
  have w: "valueAt (merge t (JObj (buildObject [''desktop'', ''iconview'', ''enabled''] (JBool b))))
      [''desktop'', ''iconview'', ''enabled''] = Some (JBool b)" for t b
  proof -
    have "valueAt (merge t (JObj (buildObject [''desktop'', ''iconview'', ''enabled''] (JBool b))))
        [''desktop'', ''iconview'', ''enabled'']
      = Some (merge (prior t [''desktop'', ''iconview'', ''enabled'']) (JBool b))"
      by (rule valueAt_written) (simp_all add: protoKey_def)
    then show ?thesis by (simp add: merge_not_mapping_right)
  qed
  have sp: "splitDots ''desktop.iconview.enabled'' = [''desktop'', ''iconview'', ''enabled'']"
    by simp
  show "valueAt (settings (update ''desktop.iconview.enabled'' value s))
     [''desktop'', ''iconview'', ''enabled''] = Some (JBool (value = JStr ''true''))"
    using w [of "settings s" "value = JStr ''true''"]
    by (simp only: settings_update sp resolveValue_def refl if_True)
  show "valueAt (settings (update ''desktop.iconview.enabled'' (JBool True) s))
     [''desktop'', ''iconview'', ''enabled''] = Some (JBool False)"
    using w [of "settings s" False]
    by (simp add: settings_update resolveValue_def del: buildObject.simps)
next
  assume a: "ks \<noteq> [] \<and> (\<forall>k \<in> set ks. CHR ''.'' \<notin> set k) \<and> protoKey \<notin> set ks \<and>
    \<not> (isMapping value \<and> isMapping (prior (settings s) ks))"
  then have sp: "splitDots (joinDots ks) = ks" by (simp add: splitDots_joinDots)
  have m: "merge (prior (settings s) ks) value = value"
    using a by (auto simp: merge_not_mapping_left merge_not_mapping_right)
  have "valueAt (merge (settings s) (JObj (buildObject ks value))) ks
      = Some (merge (prior (settings s) ks) value)"
    using a by (intro valueAt_written) simp_all
  with m show "valueAt (settings (update_index (joinDots ks) value s)) ks = Some value"
    by (simp add: settings_update_index sp)
  assume "ks \<noteq> [''desktop'', ''iconview'', ''enabled'']"
  then have "joinDots ks \<noteq> ''desktop.iconview.enabled''"
    using a by (intro joinDots_iconview) simp_all
  then have "resolveValue (joinDots ks) value = value" by (simp add: resolveValue_def)
  moreover have "valueAt (merge (settings s) (JObj (buildObject ks value))) ks
      = Some (merge (prior (settings s) ks) value)"
    using a by (intro valueAt_written) simp_all
  ultimately show "valueAt (settings (update (joinDots ks) value s)) ks = Some value"
    using m by (simp add: settings_update sp)
qed

theorem update_stores_coerced_witness:
  "valueAt (settings (update ''desktop.theme'' (JStr ''dark'')
     \<lparr>loading = False, locales = JObj [], themes = JObj [], defaults = JObj [],
      settings = JObj [(''desktop'', JObj [(''icons'', JStr ''gnome'')])]\<rparr>))
     [''desktop'', ''theme''] = Some (JStr ''dark'') \<and>
   valueAt (settings (update_index ''desktop.iconview.enabled'' (JStr ''true'')
     \<lparr>loading = False, locales = JObj [], themes = JObj [], defaults = JObj [],
      settings = JObj []\<rparr>))
     [''desktop'', ''iconview'', ''enabled''] = Some (JStr ''true'')"
  using update_stores_coerced [of "JStr ''dark''"
      "\<lparr>loading = False, locales = JObj [], themes = JObj [], defaults = JObj [],
        settings = JObj [(''desktop'', JObj [(''icons'', JStr ''gnome'')])]\<rparr>"
      "[''desktop'', ''theme'']"]
    update_stores_coerced [of "JStr ''true''"
      "\<lparr>loading = False, locales = JObj [], themes = JObj [], defaults = JObj [],
        settings = JObj []\<rparr>"
      "[''desktop'', ''iconview'', ''enabled'']"]
  by (simp add: protoKey_def prior_def)

subsection \<open>Claim C9\<close>

text \<open>
  C9 as stated fails. The empty path is not a path of no segments:
  \<^verbatim>\<open>''.split(/\./g)\<close> is \<^verbatim>\<open>['']\<close>, and the write goes to the property whose
  name is the empty string. In the tree \<^verbatim>\<open>{'': {a: 1}}\<close> the path \<^verbatim>\<open>.a\<close> is
  present and resolves to \<^verbatim>\<open>1\<close>; after \<^verbatim>\<open>update({path: '', value: 5})\<close> it
  resolves to the fallback.
\<close>

theorem empty_path_counterexample:
  "valueAt (JObj [('''', JObj [(''a'', JNum 1)])]) (splitDots ''.a'') = Some (JNum 1) \<and>
   resolve plainHost (JObj [('''', JObj [(''a'', JNum 1)])]) ''.a'' (JStr ''x'') = Normal (JNum 1) \<and>
   resolve plainHost
     (settings (update_index '''' (JNum 5)
        \<lparr>loading = False, locales = JObj [], themes = JObj [], defaults = JObj [],
         settings = JObj [('''', JObj [(''a'', JNum 1)])]\<rparr>))
     ''.a'' (JStr ''x'') = Normal (JStr ''x'') \<and>
   resolve plainHost
     (settings (update '''' (JNum 5)
        \<lparr>loading = False, locales = JObj [], themes = JObj [], defaults = JObj [],
         settings = JObj [('''', JObj [(''a'', JNum 1)])]\<rparr>))
     ''.a'' (JStr ''x'') = Normal (JStr ''x'')"
  by (simp add: resolve_def update_index_def update_def resolveNewSetting_index_def
      resolveNewSetting_def resolveValue_def protoKey_def)

lemma disjoint_empty_segment: "hd (splitDots P) \<noteq> [] \<Longrightarrow> disjointPaths [''''] (splitDots P)"
  using splitDots_nonempty [of P] by (cases "splitDots P") (auto simp: disjointPaths_def)

text \<open>
  C9, amended. \<open>update\<close> with the empty path writes at the one-segment path
  whose segment is the empty string: afterwards the tree holds there the merge
  of what it held with the value written. Every path present in the tree whose
  first segment is not the empty string resolves afterwards to what it
  resolved to before, for every runtime and fallback.
\<close>

theorem empty_path_frame:
  "(valueAt (settings s) (splitDots P) = Some V2 \<and> hd (splitDots P) \<noteq> '''' \<longrightarrow>
      resolve h (settings (update '''' V s)) P fb = resolve h (settings s) P fb \<and>
      resolve h (settings (update_index '''' V s)) P fb = resolve h (settings s) P fb) \<and>
   valueAt (settings (update_index '''' V s)) (splitDots '''')
     = Some (merge (prior (settings s) (splitDots '''')) V) \<and>
   valueAt (settings (update '''' V s)) (splitDots '''')
     = Some (merge (prior (settings s) (splitDots '''')) V)"
proof (intro conjI impI)
  assume a: "valueAt (settings s) (splitDots P) = Some V2 \<and> hd (splitDots P) \<noteq> ''''"
  then have d: "disjointPaths [''''] (splitDots P)" by (simp add: disjoint_empty_segment)
  have "valueAt (merge (settings s) (JObj (buildObject [''''] w))) (splitDots P) = Some V2" for w
    using a d by (intro valueAt_sibling) simp_all
  then show "resolve h (settings (update '''' V s)) P fb = resolve h (settings s) P fb"
    and "resolve h (settings (update_index '''' V s)) P fb = resolve h (settings s) P fb"
    using a
    by (simp_all add: settings_update settings_update_index resolve_present
        del: buildObject.simps)
next
  have "valueAt (merge (settings s) (JObj (buildObject [''''] w))) ['''']
      = Some (merge (prior (settings s) ['''']) w)" for w
    by (rule valueAt_written) (simp_all add: protoKey_def)
  then show "valueAt (settings (update_index '''' V s)) (splitDots '''')
      = Some (merge (prior (settings s) (splitDots '''')) V)"
    and "valueAt (settings (update '''' V s)) (splitDots '''')
      = Some (merge (prior (settings s) (splitDots '''')) V)"
    by (simp_all add: settings_update settings_update_index resolveValue_def
        del: buildObject.simps)
qed

theorem empty_path_frame_witness:
  "resolve plainHost
     (settings (update '''' (JNum 5)
        \<lparr>loading = False, locales = JObj [], themes = JObj [], defaults = JObj [],
         settings = JObj [(''desktop'', JObj [(''theme'', JStr ''dark'')])]\<rparr>))
     ''desktop.theme'' JUndefined = Normal (JStr ''dark'')"
  using empty_path_frame [of
      "\<lparr>loading = False, locales = JObj [], themes = JObj [], defaults = JObj [],
         settings = JObj [(''desktop'', JObj [(''theme'', JStr ''dark'')])]\<rparr>"
      "''desktop.theme''" "JStr ''dark''" plainHost "JNum 5" JUndefined]
  by (simp add: resolve_def)

section \<open>Facts about the view state\<close>

subsection \<open>Claim C10\<close>

text \<open>
  C10. For every state, path and value, \<open>update\<close> (of either file) leaves the
  loading flag, the defaults, the locales and the themes as they were: only
  the settings are replaced.
\<close>

theorem update_frame:
  "loading (update path value s) = loading s \<and>
   defaults (update path value s) = defaults s \<and>
   locales (update path value s) = locales s \<and>
   themes (update path value s) = themes s \<and>
   loading (update_index path value s) = loading s \<and>
   defaults (update_index path value s) = defaults s \<and>
   locales (update_index path value s) = locales s \<and>
   themes (update_index path value s) = themes s"
  by (simp add: update_def update_index_def resolveNewSetting_def resolveNewSetting_index_def)

text \<open>
  The scenario of the specification: with empty settings the theme comes from
  the defaults; once \<^verbatim>\<open>desktop.theme\<close> is written it comes from the settings,
  and \<^verbatim>\<open>desktop.icons\<close> still falls through.
\<close>

lemma resolveSetting_scenario:
  "resolveSetting plainHost (JObj []) (JObj [(''desktop'', JObj [(''theme'', JStr ''default'')])])
     ''desktop.theme'' = Normal (JStr ''default'') \<and>
   resolveSetting plainHost
     (settings (update ''desktop.theme'' (JStr ''dark'')
        \<lparr>loading = False, locales = JObj [], themes = JObj [],
         defaults = JObj [(''desktop'', JObj [(''theme'', JStr ''default'')])],
         settings = JObj []\<rparr>))
     (JObj [(''desktop'', JObj [(''theme'', JStr ''default'')])])
     ''desktop.theme'' = Normal (JStr ''dark'') \<and>
   resolveSetting plainHost
     (settings (update ''desktop.theme'' (JStr ''dark'')
        \<lparr>loading = False, locales = JObj [], themes = JObj [],
         defaults = JObj [(''desktop'', JObj [(''theme'', JStr ''default'')])],
         settings = JObj []\<rparr>))
     (JObj [(''desktop'', JObj [(''theme'', JStr ''default'')])])
     ''desktop.icons'' = Normal JUndefined"
  by (simp add: resolveSetting_def resolve_def update_def resolveNewSetting_def
      resolveValue_def protoKey_def objectPrototype_def)

section \<open>Facts about saving\<close>

lemma loading_update [simp]: "loading (update path value s) = loading s"
  by (simp add: update_def resolveNewSetting_def)

lemma loading_refresh [simp]: "loading (refresh t s) = loading s"
  by (simp add: refresh_def)

lemma loading_setLoading [simp]: "loading (setLoading l s) = l"
  by (simp add: setLoading_def)

lemma settings_setLoading [simp]: "settings (setLoading l s) = settings s"
  by (simp add: setLoading_def)

lemma step_singleFlight: "singleFlight w \<Longrightarrow> singleFlight (step w e)"
  by (cases e)
    (auto simp: singleFlight_def save_def onSaved_def onFailed_def Let_def split: option.splits)

lemma run_singleFlight: "singleFlight w \<Longrightarrow> singleFlight (run w es)"
  unfolding run_def by (induction es arbitrary: w) (simp_all add: step_singleFlight)

lemma initialWorld_singleFlight: "singleFlight (initialWorld ls ts ds ss)"
  by (simp add: singleFlight_def initialWorld_def)

subsection \<open>Claim C6\<close>

text \<open>
  C6. \<open>save\<close> in a state whose loading flag is set changes nothing: the state,
  the count of pending promises and the trace of collaborator calls stay as
  they were, so \<^verbatim>\<open>setSettings\<close> is not called and nothing is queued. In a
  state whose flag is clear, \<open>save\<close> sets it, calls \<^verbatim>\<open>setSettings\<close> with the
  working tree and leaves one more promise pending; both callbacks clear the
  flag. Whatever events an editor goes through from its initial state, at
  most one promise is pending, and the loading flag is set exactly while one
  is.
\<close>

theorem save_single_flight:
  "(loading (view w) \<longrightarrow> save w = w) \<and>
   (\<not> loading (view w) \<longrightarrow>
      loading (view (save w)) \<and> pending (save w) = Suc (pending w) \<and>
      trace (save w) = trace w @ [SetSettings (settings (view w))]) \<and>
   \<not> loading (view (onSaved applied w)) \<and>
   \<not> loading (view (onFailed error w)) \<and>
   pending (run (initialWorld ls ts ds ss) es) \<le> 1 \<and>
   (loading (view (run (initialWorld ls ts ds ss) es))
      = (pending (run (initialWorld ls ts ds ss) es) = 1))"
proof -
  have "singleFlight (run (initialWorld ls ts ds ss) es)"
    by (intro run_singleFlight initialWorld_singleFlight)
  then show ?thesis
    by (simp add: singleFlight_def save_def onSaved_def onFailed_def Let_def split: option.splits)
qed

text \<open>A second \<open>Save\<close> while the first is pending: one call of \<^verbatim>\<open>setSettings\<close>.\<close>

theorem save_single_flight_witness:
  "save (run (initialWorld (JObj []) (JObj []) (JObj []) (JObj [])) [Save])
     = run (initialWorld (JObj []) (JObj []) (JObj []) (JObj [])) [Save] \<and>
   trace (run (initialWorld (JObj []) (JObj []) (JObj []) (JObj [])) [Save, Save])
     = [SetSettings (JObj [])] \<and>
   loading (view (save (initialWorld (JObj []) (JObj []) (JObj []) (JObj []))))"
  using save_single_flight [of "run (initialWorld (JObj []) (JObj []) (JObj []) (JObj [])) [Save]"]
    save_single_flight [of "initialWorld (JObj []) (JObj []) (JObj []) (JObj [])"]
  by (simp add: run_def initialWorld_def save_def)

subsection \<open>Claim C7\<close>

text \<open>
  C7. The callback that runs when the promise of \<^verbatim>\<open>setSettings\<close> rejects
  clears the loading flag, reports the error and leaves the settings tree as
  it was; \<open>save\<close> itself does not touch the tree either. So from every state
  whose loading flag is clear, a save followed by its rejection ends with the
  flag clear, no promise more pending than before, and the working tree equal
  to the tree before the call.
\<close>

theorem save_failure_keeps_edits:
  "\<not> loading (view (onFailed error w)) \<and>
   settings (view (onFailed error w)) = settings (view w) \<and>
   settings (view (save w)) = settings (view w) \<and>
   trace (onFailed error w) = trace w @ [ConsoleError error] \<and>
   (\<not> loading (view w) \<longrightarrow>
      \<not> loading (view (step (step w Save) (Failed error))) \<and>
      settings (view (step (step w Save) (Failed error))) = settings (view w) \<and>
      pending (step (step w Save) (Failed error)) = pending w)"
  by (simp add: save_def onFailed_def)

theorem save_failure_keeps_edits_witness:
  "\<not> loading (view (run (initialWorld (JObj []) (JObj []) (JObj [])
       (JObj [(''desktop'', JObj [(''theme'', JStr ''dark'')])]))
       [Save, Failed (JStr ''offline'')])) \<and>
   settings (view (run (initialWorld (JObj []) (JObj []) (JObj [])
       (JObj [(''desktop'', JObj [(''theme'', JStr ''dark'')])]))
       [Save, Failed (JStr ''offline'')]))
     = JObj [(''desktop'', JObj [(''theme'', JStr ''dark'')])]"
  using save_failure_keeps_edits [of "JStr ''offline''"
      "initialWorld (JObj []) (JObj []) (JObj [])
         (JObj [(''desktop'', JObj [(''theme'', JStr ''dark'')])])"]
  by (simp add: run_def initialWorld_def)

section \<open>Facts about field dispatch\<close>

text \<open>
  Where the runtime supplies no property of the name \<open>kind\<close> to the table,
  the registered kinds get their own function and every other kind gets
  \<^verbatim>\<open>fallback\<close>.
\<close>

lemma item_own_or_fallback:
  "h fieldMap kind = Normal JUndefined \<Longrightarrow>
   item h kind =
     Normal (if kind = ''select'' \<or> kind = ''dialog'' then JOpaque kind else JOpaque ''fallback'')"
  by (auto simp: item_def fieldMap_def)

subsection \<open>Claim C8\<close>

text \<open>
  C8 holds for the kinds above and fails for a kind that names a property the
  table inherits. The table is a plain object, so \<^verbatim>\<open>fields['constructor']\<close>
  is the function \<^verbatim>\<open>Object\<close> and \<^verbatim>\<open>fields['toString']\<close> is
  \<^verbatim>\<open>Object.prototype.toString\<close>: both are truthy, \<^verbatim>\<open>||\<close> does not reach
  \<^verbatim>\<open>fields.fallback\<close>, and the item is given a function that is none of the
  three strategies.
\<close>

theorem item_inherited_kind:
  "item plainHost ''select'' = Normal (JOpaque ''select'') \<and>
   item plainHost ''dialog'' = Normal (JOpaque ''dialog'') \<and>
   item plainHost ''text'' = Normal (JOpaque ''fallback'') \<and>
   item plainHost ''constructor'' = Normal (JOpaque ''Object'') \<and>
   item plainHost ''toString'' = Normal (JOpaque ''Object.prototype.toString'')"
  by (simp add: item_def fieldMap_def objectPrototype_def)

end
